theory Spec2Isabelle
  imports Complex_Main "HOL-Library.Sublist"
begin

section \<open>Common types\<close>

text \<open>
  Python text that may hold any Unicode character (document fragments, the model's
  output, the job result) is a list of code points; identifiers, dictionary keys and
  status names, which the program writes as ASCII literals, are \<open>string\<close>.
\<close>

type_synonym ustr = "nat list"

text \<open>The exceptions the program raises or catches, with their message.\<close>

datatype exn =
    KeyError string
  | ValueError string
  | AssertionError
  | IndexError
  | HTTPException nat string
  | OtherException string

section \<open>The vector store (\<open>rag/vector_store.py\<close>)\<close>

text \<open>
  An embedding is a list of numbers. The components are exact rationals here: every
  float32 value is one, and the rounding of float32 arithmetic is not modelled.
\<close>

type_synonym vec = "rat list"

subsection \<open>The flat L2 index\<close>

text \<open>
  \<open>faiss.IndexFlatL2\<close> is a library outside the repository. Its model follows the
  library's interface: \<open>add\<close> and \<open>search\<close> assert that the vector has the dimension
  of the index, \<open>search\<close> asserts \<open>k > 0\<close> and returns one row of exactly \<open>k\<close> labels,
  the positions of the stored vectors by ascending squared Euclidean distance to the
  query (equal distances in insertion order), and where fewer than \<open>k\<close> vectors are
  stored the remaining labels are \<open>-1\<close>.
\<close>

definition l2sqr :: "vec \<Rightarrow> vec \<Rightarrow> rat" where
  "l2sqr x y = sum_list (map (\<lambda>(a, b). (a - b) * (a - b)) (zip x y))"

definition index_add :: "nat \<Rightarrow> vec list \<Rightarrow> vec \<Rightarrow> exn + vec list" where
  "index_add n xs x = (if length x \<noteq> n then Inl AssertionError else Inr (xs @ [x]))"

definition ranked :: "vec list \<Rightarrow> vec \<Rightarrow> nat list" where
  "ranked xs q = map snd (sort_key fst (zip (map (l2sqr q) xs) [0..<length xs]))"

definition index_search :: "nat \<Rightarrow> vec list \<Rightarrow> vec \<Rightarrow> int \<Rightarrow> exn + int list" where
  "index_search n xs q k =
     (if length q \<noteq> n \<or> k \<le> 0 then Inl AssertionError
      else Inr (map int (take (nat k) (ranked xs q)) @ replicate (nat k - length xs) (- 1)))"

subsection \<open>Python list indexing and list comprehensions\<close>

definition getitem :: "'a list \<Rightarrow> int \<Rightarrow> exn + 'a" where
  \<comment> \<open>\<open>xs[i]\<close>: an index from \<open>-len(xs)\<close> to \<open>-1\<close> counts from the end\<close>
  "getitem xs i =
     (if 0 \<le> i \<and> i < int (length xs) then Inr (xs ! nat i)
      else if i < 0 \<and> - int (length xs) \<le> i then Inr (xs ! nat (int (length xs) + i))
      else Inl IndexError)"

fun collect :: "(exn + 'a) list \<Rightarrow> exn + 'a list" where
  \<comment> \<open>a comprehension stops at the first element that raises\<close>
  "collect [] = Inr []"
| "collect (Inl e # rs) = Inl e"
| "collect (Inr v # rs) = (case collect rs of Inl e \<Rightarrow> Inl e | Inr vs \<Rightarrow> Inr (v # vs))"

subsection \<open>\<open>VectorStore\<close>\<close>

record VectorStore =
  index_d :: nat
  index :: "vec list"
  chunks :: "ustr list"

definition vector_store :: VectorStore where
  \<comment> \<open>\<open>VectorStore()\<close>: \<open>faiss.IndexFlatL2(768)\<close>, no chunks\<close>
  "vector_store = \<lparr>index_d = 768, index = [], chunks = []\<rparr>"

definition add :: "VectorStore \<Rightarrow> vec \<Rightarrow> ustr \<Rightarrow> exn + VectorStore" where
  "add s emb chunk =
     (case index_add (index_d s) (index s) emb of
        Inl e \<Rightarrow> Inl e
      | Inr ix \<Rightarrow> Inr (s\<lparr>index := ix, chunks := chunks s @ [chunk]\<rparr>))"

definition search :: "VectorStore \<Rightarrow> vec \<Rightarrow> int \<Rightarrow> exn + ustr list" where
  "search s query_emb k =
     (if length (index s) = 0 then Inr []
      else case index_search (index_d s) (index s) query_emb k of
        Inl e \<Rightarrow> Inl e
      | Inr indices \<Rightarrow>
          (let valid_indices = filter (\<lambda>i. i < int (length (chunks s))) indices
           in collect (map (getitem (chunks s)) valid_indices)))"

text \<open>
  A sequence of \<open>add\<close> calls; a call that raises leaves the store as it was (the index
  raises before the fragment is appended) and the caller goes on with the next call.
\<close>

fun adds :: "VectorStore \<Rightarrow> (vec \<times> ustr) list \<Rightarrow> VectorStore" where
  "adds s [] = s"
| "adds s ((emb, chunk) # rest) =
     (case add s emb chunk of Inl e \<Rightarrow> adds s rest | Inr s' \<Rightarrow> adds s' rest)"

section \<open>The RAG task (\<open>main.py\<close>, \<open>execute_rag_task\<close>)\<close>

definition ascii :: "string \<Rightarrow> ustr" where
  "ascii s = map of_char s"

subsection \<open>Python string operations\<close>

definition replace :: "nat \<Rightarrow> ustr \<Rightarrow> ustr \<Rightarrow> ustr" where
  \<comment> \<open>\<open>s.replace(old, new)\<close> for a one-character \<open>old\<close>\<close>
  "replace old new s = concat (map (\<lambda>c. if c = old then new else [c]) s)"

definition isspace :: "nat \<Rightarrow> bool" where
  \<comment> \<open>the characters \<open>str.split()\<close> separates at\<close>
  "isspace c \<longleftrightarrow>
     (9 \<le> c \<and> c \<le> 13) \<or> (28 \<le> c \<and> c \<le> 32) \<or> c = 133 \<or> c = 160 \<or> c = 5760
     \<or> (8192 \<le> c \<and> c \<le> 8202) \<or> c = 8232 \<or> c = 8233 \<or> c = 8239 \<or> c = 8287
     \<or> c = 12288"

fun split_from :: "ustr \<Rightarrow> ustr \<Rightarrow> ustr list" where
  \<comment> \<open>the first argument is the word being read\<close>
  "split_from w [] = (if w = [] then [] else [w])"
| "split_from w (c # cs) =
     (if isspace c then (if w = [] then split_from [] cs else w # split_from [] cs)
      else split_from (w @ [c]) cs)"

definition split :: "ustr \<Rightarrow> ustr list" where
  \<comment> \<open>\<open>s.split()\<close>: the maximal runs of characters that are not whitespace\<close>
  "split s = split_from [] s"

fun join :: "ustr \<Rightarrow> ustr list \<Rightarrow> ustr" where
  \<comment> \<open>\<open>sep.join(ws)\<close>\<close>
  "join sep [] = []"
| "join sep [w] = w"
| "join sep (w # ws) = w @ sep @ join sep ws"

subsection \<open>JSON values and \<open>json.dumps\<close>\<close>

text \<open>
  The \<open>json\<close> module is Python's own. A parsed value is a \<open>json\<close>; a dictionary keeps
  its keys in insertion order. \<open>json.dumps\<close> is modelled with its default settings:
  separators \<open>", "\<close> and \<open>": "\<close>, and every character of a string outside the
  printable ASCII range, the quote and the backslash escaped. How Python prints a
  float is not modelled: a float carries the text \<open>repr\<close> gives it.
\<close>

datatype json =
    JNull
  | JBool bool
  | JInt int
  | JFloat ustr
  | JString ustr
  | JArray "json list"
  | JObject "(ustr \<times> json) list"

definition hexdigit :: "nat \<Rightarrow> nat" where
  "hexdigit n = (if n < 10 then 48 + n else 87 + n)"

definition hex4 :: "nat \<Rightarrow> ustr" where
  \<comment> \<open>\<open>'{0:04x}'.format(n)\<close> for \<open>n < 65536\<close>\<close>
  "hex4 n = [hexdigit (n div 4096 mod 16), hexdigit (n div 256 mod 16),
             hexdigit (n div 16 mod 16), hexdigit (n mod 16)]"

definition uescape :: "nat \<Rightarrow> ustr" where
  "uescape n = [92, 117] @ hex4 n"

definition escape_char :: "nat \<Rightarrow> ustr" where
  "escape_char c =
     (if c = 92 then [92, 92]
      else if c = 34 then [92, 34]
      else if c = 8 then [92, 98]
      else if c = 12 then [92, 102]
      else if c = 10 then [92, 110]
      else if c = 13 then [92, 114]
      else if c = 9 then [92, 116]
      else if 32 \<le> c \<and> c \<le> 126 then [c]
      else if c < 65536 then uescape c
      else uescape (55296 + ((c - 65536) div 1024) mod 1024)
           @ uescape (56320 + (c - 65536) mod 1024))"

definition dumps_string :: "ustr \<Rightarrow> ustr" where
  "dumps_string s = [34] @ concat (map escape_char s) @ [34]"

fun digits :: "nat \<Rightarrow> ustr" where
  "digits n = (if n < 10 then [48 + n] else digits (n div 10) @ [48 + n mod 10])"

definition dumps_int :: "int \<Rightarrow> ustr" where
  "dumps_int i = (if i < 0 then 45 # digits (nat (- i)) else digits (nat i))"

fun dumps :: "json \<Rightarrow> ustr" where
  "dumps JNull = ascii ''null''"
| "dumps (JBool b) = (if b then ascii ''true'' else ascii ''false'')"
| "dumps (JInt i) = dumps_int i"
| "dumps (JFloat r) = r"
| "dumps (JString s) = dumps_string s"
| "dumps (JArray vs) = [91] @ join [44, 32] (map dumps vs) @ [93]"
| "dumps (JObject kvs) =
     [123] @ join [44, 32] (map (\<lambda>(k, v). dumps_string k @ [58, 32] @ dumps v) kvs) @ [125]"

subsection \<open>The collaborators\<close>

text \<open>
  What the services outside the program answer during one call: the embedding and
  generation models, \<open>json.loads\<close> (\<open>None\<close> where it raises), the payment service
  behind the \<open>masumi\<close> \<open>Payment\<close> object, and the process environment. The prompt
  is a fixed template around the context and the question, so \<open>generate\<close> takes
  these two. The payment service's answers are dictionaries of dictionaries of
  strings; an answer of another shape makes the lookups on it raise, which every
  caller below treats like an exception of the call itself.
\<close>

record env =
  get_embedding :: "ustr \<Rightarrow> exn + vec"
  generate :: "ustr \<Rightarrow> ustr \<Rightarrow> exn + ustr"
  loads :: "ustr \<Rightarrow> json option"
  create_payment_request :: "exn + (string \<rightharpoonup> (string \<rightharpoonup> string))"
  start_status_monitoring :: "exn option"
  complete_payment :: "string \<Rightarrow> ustr \<Rightarrow> exn option"
  check_payment_status :: "exn + (string \<rightharpoonup> (string \<rightharpoonup> string))"
  getenv :: "string \<rightharpoonup> string"
  input_hash :: "string option"

subsection \<open>\<open>execute_rag_task\<close>\<close>

definition sanitize :: "ustr \<Rightarrow> ustr" where
  \<comment> \<open>the fallback of lines 129 to 136\<close>
  "sanitize text =
     (let ans = replace 13 [32] (replace 10 [32] text);
          ans = replace 8226 [] (replace 42 [] ans);
          ans = replace 45 [32] ans;
          ans = replace 8377 (ascii '' ruppees'') ans
      in join [32] (split ans))"

definition answer_of :: "(ustr \<Rightarrow> json option) \<Rightarrow> ustr \<Rightarrow> ustr" where
  \<comment> \<open>lines 119 to 138, on the text of the model's response\<close>
  "answer_of parse text =
     (case parse text of
        Some (JObject kvs) \<Rightarrow>
          if ascii ''answer'' \<in> fst ` set kvs then dumps (JObject kvs)
          else dumps (JObject [(ascii ''answer'', JString (sanitize text))])
      | _ \<Rightarrow> dumps (JObject [(ascii ''answer'', JString (sanitize text))]))"

definition execute_rag_task :: "env \<Rightarrow> VectorStore \<Rightarrow> (string \<rightharpoonup> ustr) \<Rightarrow> exn + ustr" where
  "execute_rag_task e vs inp =
     (case inp ''question'' of
        None \<Rightarrow> Inl (ValueError ''Question missing from input_data'')
      | Some query \<Rightarrow>
          if query = [] then Inl (ValueError ''Question missing from input_data'')
          else case get_embedding e query of
            Inl x \<Rightarrow> Inl x
          | Inr query_emb \<Rightarrow>
              (case search vs query_emb 5 of
                 Inl x \<Rightarrow> Inl x
               | Inr context_chunks \<Rightarrow>
                   (case generate e (join [10, 10] context_chunks) query of
                      Inl x \<Rightarrow> Inl x
                    | Inr text \<Rightarrow> Inr (answer_of (loads e) text))))"

subsection \<open>The fallback in the words of the specification\<close>



section \<open>Jobs and payments (\<open>main.py\<close>)\<close>

text \<open>
  A job is the dictionary stored under its id in \<open>jobs\<close>; the key \<open>error\<close> is absent
  (\<open>None\<close>) until a failure writes it, \<open>result\<close> is Python's \<open>None\<close> until a
  result is written. Of the \<open>Payment\<close> object kept in \<open>payment_instances\<close> the model
  keeps the payment ids and whether its status monitor runs.
\<close>

record job =
  status :: string
  payment_status :: "string option"
  blockchain_identifier :: string
  input_data :: "string \<rightharpoonup> ustr"
  result :: "ustr option"
  error :: "string option"
  identifier_from_purchaser :: string

record payment =
  payment_ids :: "string list"
  monitoring :: bool

text \<open>
  The calls the program makes to its collaborators and the status values it writes
  are recorded in order, so that what a handler did can be read off afterwards.
\<close>

datatype effect =
    CreatePaymentRequest string
  | StartStatusMonitoring string
  | StatusWrite string string
  | ExecuteRagTask string
  | CompletePayment string string ustr
  | StopStatusMonitoring string
  | CheckPaymentStatus string

record state =
  jobs :: "string \<rightharpoonup> job"
  payment_instances :: "string \<rightharpoonup> payment"
  store :: VectorStore
  trace :: "effect list"

definition init :: state where
  "init = \<lparr>jobs = Map.empty, payment_instances = Map.empty, store = vector_store, trace = []\<rparr>"

definition log :: "effect list \<Rightarrow> state \<Rightarrow> state" where
  "log es s = s\<lparr>trace := trace s @ es\<rparr>"

fun str :: "exn \<Rightarrow> string" where
  \<comment> \<open>\<open>str(e)\<close>\<close>
  "str (KeyError k) = [CHR 0x27] @ k @ [CHR 0x27]"
| "str (ValueError m) = m"
| "str AssertionError = []"
| "str IndexError = ''list index out of range''"
| "str (HTTPException c d) = d"
| "str (OtherException m) = m"

subsection \<open>\<open>start_job\<close>\<close>

record StartJobRequest =
  req_identifier_from_purchaser :: string
  req_input_data :: "string \<rightharpoonup> ustr"

record StartJobResponse =
  r_status :: string
  r_job_id :: string
  r_blockchainIdentifier :: string
  r_submitResultTime :: string
  r_unlockTime :: string
  r_externalDisputeUnlockTime :: string
  r_agentIdentifier :: "string option"
  r_sellerVKey :: "string option"
  r_identifierFromPurchaser :: string
  r_amounts :: "(string \<times> string) list"
  r_input_hash :: "string option"
  r_payByTime :: string

definition subscript :: "(string \<rightharpoonup> 'a) \<Rightarrow> string \<Rightarrow> exn + 'a" where
  \<comment> \<open>\<open>d[k]\<close>\<close>
  "subscript m k = (case m k of None \<Rightarrow> Inl (KeyError k) | Some v \<Rightarrow> Inr v)"

definition getenv_default :: "env \<Rightarrow> string \<Rightarrow> string \<Rightarrow> string" where
  \<comment> \<open>\<open>os.getenv(k, default)\<close>\<close>
  "getenv_default e k dflt = (case getenv e k of None \<Rightarrow> dflt | Some v \<Rightarrow> v)"

definition start_job_response ::
  "env \<Rightarrow> string \<Rightarrow> StartJobRequest \<Rightarrow> string \<Rightarrow> (string \<rightharpoonup> string) \<Rightarrow> exn + StartJobResponse" where
  \<comment> \<open>the dictionary of lines 239 to 252, its entries evaluated in order\<close>
  "start_job_response e job_id data bid pdata =
     (case subscript pdata ''submitResultTime'' of Inl x \<Rightarrow> Inl x | Inr srt \<Rightarrow>
      case subscript pdata ''unlockTime'' of Inl x \<Rightarrow> Inl x | Inr ut \<Rightarrow>
      case subscript pdata ''externalDisputeUnlockTime'' of Inl x \<Rightarrow> Inl x | Inr edut \<Rightarrow>
      case subscript pdata ''payByTime'' of Inl x \<Rightarrow> Inl x | Inr pbt \<Rightarrow>
        Inr \<lparr>r_status = ''success'', r_job_id = job_id, r_blockchainIdentifier = bid,
             r_submitResultTime = srt, r_unlockTime = ut, r_externalDisputeUnlockTime = edut,
             r_agentIdentifier = getenv e ''AGENT_IDENTIFIER'',
             r_sellerVKey = getenv e ''SELLER_VKEY'',
             r_identifierFromPurchaser = req_identifier_from_purchaser data,
             r_amounts = [(getenv_default e ''PAYMENT_AMOUNT'' ''10000000'',
                           getenv_default e ''PAYMENT_UNIT'' ''lovelace'')],
             r_input_hash = input_hash e, r_payByTime = pbt\<rparr>)"

definition start_job_try ::
  "env \<Rightarrow> state \<Rightarrow> string \<Rightarrow> StartJobRequest \<Rightarrow> (exn + StartJobResponse) \<times> state" where
  \<comment> \<open>the body of the \<open>try\<close>, lines 182 to 252; \<open>job_id\<close> is the fresh uuid\<close>
  "start_job_try e s job_id data =
     (if ''question'' \<notin> dom (req_input_data data)
      then (Inl (HTTPException 400 ''Missing required field: question''), s)
      else
        let s1 = log [CreatePaymentRequest job_id] s in
        case create_payment_request e of
          Inl x \<Rightarrow> (Inl x, s1)
        | Inr payment_request \<Rightarrow>
        (case subscript payment_request ''data'' of
          Inl x \<Rightarrow> (Inl x, s1)
        | Inr pdata \<Rightarrow>
        (case subscript pdata ''blockchainIdentifier'' of
          Inl x \<Rightarrow> (Inl x, s1)
        | Inr bid \<Rightarrow>
            let s2 = s1\<lparr>jobs := (jobs s1)(job_id \<mapsto>
                        \<lparr>status = ''awaiting_payment'', payment_status = Some ''pending'',
                         blockchain_identifier = bid, input_data = req_input_data data,
                         result = None, error = None,
                         identifier_from_purchaser = req_identifier_from_purchaser data\<rparr>)\<rparr>;
                s3 = log [StartStatusMonitoring job_id]
                       (s2\<lparr>payment_instances := (payment_instances s2)(job_id \<mapsto>
                            \<lparr>payment_ids = [bid], monitoring = False\<rparr>)\<rparr>)
            in case start_status_monitoring e of
                 Some x \<Rightarrow> (Inl x, s3)
               | None \<Rightarrow>
                   (start_job_response e job_id data bid pdata,
                    s3\<lparr>payment_instances := (payment_instances s3)(job_id \<mapsto>
                         \<lparr>payment_ids = [bid], monitoring = True\<rparr>)\<rparr>))))"

definition start_job ::
  "env \<Rightarrow> state \<Rightarrow> string \<Rightarrow> StartJobRequest \<Rightarrow> (exn + StartJobResponse) \<times> state" where
  \<comment> \<open>the two \<open>except\<close> clauses: every exception of the body becomes a 400\<close>
  "start_job e s job_id data =
     (case start_job_try e s job_id data of
        (Inl (KeyError k), s') \<Rightarrow>
          (Inl (HTTPException 400 ''Bad Request: If input_data or identifier_from_purchaser is missing, invalid, or does not adhere to the schema.''), s')
      | (Inl x, s') \<Rightarrow>
          (Inl (HTTPException 400 ''Input_data or identifier_from_purchaser is missing, invalid, or does not adhere to the schema.''), s')
      | (Inr r, s') \<Rightarrow> (Inr r, s'))"

subsection \<open>\<open>handle_payment_status\<close>\<close>

definition stop_and_forget :: "string \<Rightarrow> state \<Rightarrow> state" where
  \<comment> \<open>\<open>if job_id in payment_instances: stop_status_monitoring(); del\<close>\<close>
  "stop_and_forget job_id s =
     (if job_id \<in> dom (payment_instances s)
      then log [StopStatusMonitoring job_id]
             (s\<lparr>payment_instances := (payment_instances s)(job_id := None)\<rparr>)
      else s)"

definition update_job :: "string \<Rightarrow> (job \<Rightarrow> job) \<Rightarrow> state \<Rightarrow> state" where
  "update_job job_id f s =
     (case jobs s job_id of None \<Rightarrow> s | Some j \<Rightarrow> s\<lparr>jobs := (jobs s)(job_id \<mapsto> f j)\<rparr>)"

definition on_exception :: "string \<Rightarrow> exn \<Rightarrow> state \<Rightarrow> state" where
  \<comment> \<open>the \<open>except\<close> clause, lines 295 to 303, for a job that is in the store\<close>
  "on_exception job_id x s =
     stop_and_forget job_id
       (log [StatusWrite job_id ''failed'']
          (update_job job_id (\<lambda>j. j\<lparr>status := ''failed'', error := Some (str x)\<rparr>) s))"

definition handle_payment_status ::
  "env \<Rightarrow> state \<Rightarrow> string \<Rightarrow> string \<Rightarrow> exn option \<times> state" where
  \<comment> \<open>the exception returned is the one that leaves the handler\<close>
  "handle_payment_status e s job_id payment_id =
     (case jobs s job_id of
        None \<Rightarrow> (Some (KeyError job_id), s)
      | Some j \<Rightarrow>
          let s1 = log [StatusWrite job_id ''running'', ExecuteRagTask job_id]
                     (update_job job_id (\<lambda>j. j\<lparr>status := ''running''\<rparr>) s)
          in case execute_rag_task e (store s1) (input_data j) of
               Inl x \<Rightarrow> (None, on_exception job_id x s1)
             | Inr res \<Rightarrow>
                 (case payment_instances s1 job_id of
                    None \<Rightarrow> (None, on_exception job_id (KeyError job_id) s1)
                  | Some p \<Rightarrow>
                      let s2 = log [CompletePayment job_id payment_id res] s1
                      in case complete_payment e payment_id res of
                           Some x \<Rightarrow> (None, on_exception job_id x s2)
                         | None \<Rightarrow>
                             (None,
                              stop_and_forget job_id
                                (log [StatusWrite job_id ''completed'']
                                   (update_job job_id
                                      (\<lambda>j. j\<lparr>status := ''completed'',
                                              payment_status := Some ''completed'',
                                              result := Some res\<rparr>) s2)))))"

subsection \<open>\<open>get_status\<close>\<close>

record StatusResponse =
  s_job_id :: string
  s_status :: string
  s_payment_status :: "string option"
  s_result :: "ustr option"

definition refreshed :: "env \<Rightarrow> string option" where
  \<comment> \<open>the value lines 320 to 329 store in \<open>payment_status\<close>\<close>
  "refreshed e =
     (case check_payment_status e of
        Inl (ValueError m) \<Rightarrow> Some ''unknown''
      | Inl x \<Rightarrow> Some ''error''
      | Inr st \<Rightarrow> (case st ''data'' of None \<Rightarrow> None | Some d \<Rightarrow> d ''status''))"

definition get_status :: "env \<Rightarrow> state \<Rightarrow> string \<Rightarrow> (exn + StatusResponse) \<times> state" where
  "get_status e s job_id =
     (case jobs s job_id of
        None \<Rightarrow> (Inl (HTTPException 404 ''Job not found''), s)
      | Some j \<Rightarrow>
          let (j', s') =
                (if job_id \<in> dom (payment_instances s)
                 then (j\<lparr>payment_status := refreshed e\<rparr>,
                       log [CheckPaymentStatus job_id]
                         (s\<lparr>jobs := (jobs s)(job_id \<mapsto> j\<lparr>payment_status := refreshed e\<rparr>)\<rparr>))
                 else (j, s))
          in (Inr \<lparr>s_job_id = job_id, s_status = status j',
                   s_payment_status = payment_status j', s_result = result j'\<rparr>, s'))"

subsection \<open>Sequences of requests and payment events\<close>

datatype event =
    StartJob env string StartJobRequest
  | PaymentConfirmed env string string
  | GetStatus env string
  | AddChunk vec ustr

fun step :: "state \<Rightarrow> event \<Rightarrow> state" where
  "step s (StartJob e job_id data) = snd (start_job e s job_id data)"
| "step s (PaymentConfirmed e job_id payment_id) = snd (handle_payment_status e s job_id payment_id)"
| "step s (GetStatus e job_id) = snd (get_status e s job_id)"
| "step s (AddChunk emb chunk) =
     (case add (store s) emb chunk of Inl x \<Rightarrow> s | Inr vs \<Rightarrow> s\<lparr>store := vs\<rparr>)"

definition run :: "state \<Rightarrow> event list \<Rightarrow> state" where
  "run s evs = foldl step s evs"

subsection \<open>Reading the record of calls\<close>

definition task_runs :: "string \<Rightarrow> effect list \<Rightarrow> nat" where
  \<comment> \<open>how often \<open>execute_rag_task\<close> was called for the job\<close>
  "task_runs job_id tr = count_list tr (ExecuteRagTask job_id)"

fun is_completion :: "string \<Rightarrow> effect \<Rightarrow> bool" where
  "is_completion job_id (CompletePayment k p r) = (k = job_id)"
| "is_completion job_id x = False"

definition completions :: "string \<Rightarrow> effect list \<Rightarrow> nat" where
  \<comment> \<open>how often \<open>complete_payment\<close> was called for the job\<close>
  "completions job_id tr = length (filter (is_completion job_id) tr)"

fun status_writes :: "string \<Rightarrow> effect list \<Rightarrow> string list" where
  \<comment> \<open>the values written to the job's \<open>status\<close>, in order\<close>
  "status_writes job_id [] = []"
| "status_writes job_id (StatusWrite k v # tr) =
     (if k = job_id then v # status_writes job_id tr else status_writes job_id tr)"
| "status_writes job_id (x # tr) = status_writes job_id tr"




section \<open>Concrete inputs\<close>

text \<open>Two embeddings of the configured dimension, at squared distance 1.\<close>

definition origin768 :: vec where
  "origin768 = replicate 768 0"

definition unit768 :: vec where
  "unit768 = replicate 767 0 @ [1]"

text \<open>
  Collaborators that all answer: the payment service accepts the request, the models
  answer, the model's output is not JSON. A request with a question and one without.
\<close>

definition pay_data :: "string \<rightharpoonup> string" where
  "pay_data = [''blockchainIdentifier'' \<mapsto> ''bc1'', ''submitResultTime'' \<mapsto> ''100'',
               ''unlockTime'' \<mapsto> ''200'', ''externalDisputeUnlockTime'' \<mapsto> ''300'',
               ''payByTime'' \<mapsto> ''50'']"

definition env_ok :: env where
  "env_ok = \<lparr>get_embedding = (\<lambda>t. Inr origin768),
             generate = (\<lambda>c q. Inr (ascii ''Paris'')),
             loads = (\<lambda>t. None),
             create_payment_request = Inr [''data'' \<mapsto> pay_data],
             start_status_monitoring = None,
             complete_payment = (\<lambda>p r. None),
             check_payment_status = Inr [''data'' \<mapsto> [''status'' \<mapsto> ''FundsLocked'']],
             getenv = Map.empty,
             input_hash = None\<rparr>"

definition env_down :: env where
  \<comment> \<open>the payment service does not answer the status check\<close>
  "env_down = env_ok\<lparr>check_payment_status := Inl (OtherException ''timeout'')\<rparr>"

definition req_ok :: StartJobRequest where
  "req_ok = \<lparr>req_identifier_from_purchaser = ''p1'',
             req_input_data = [''question'' \<mapsto> ascii ''What is the capital of France?'']\<rparr>"

definition req_no_question :: StartJobRequest where
  "req_no_question = \<lparr>req_identifier_from_purchaser = ''p1'', req_input_data = Map.empty\<rparr>"

definition job1 :: job where
  \<comment> \<open>the job \<open>start_job\<close> stores for \<open>req_ok\<close>\<close>
  "job1 = \<lparr>status = ''awaiting_payment'', payment_status = Some ''pending'',
            blockchain_identifier = ''bc1'', input_data = req_input_data req_ok,
            result = None, error = None, identifier_from_purchaser = ''p1''\<rparr>"

definition state1 :: state where
  \<comment> \<open>the state after \<open>start_job\<close> for \<open>req_ok\<close> with job id \<open>j1\<close>\<close>
  "state1 = \<lparr>jobs = [''j1'' \<mapsto> job1],
              payment_instances = [''j1'' \<mapsto> \<lparr>payment_ids = [''bc1''], monitoring = True\<rparr>],
              store = vector_store,
              trace = [CreatePaymentRequest ''j1'', StartStatusMonitoring ''j1'']\<rparr>"

text \<open>
  The job \<open>j1\<close> is started and its payment is confirmed, once and then a second time.
\<close>

definition answer1 :: ustr where
  \<comment> \<open>the JSON text with the one key \<open>answer\<close> and the value \<open>Paris\<close>\<close>
  "answer1 = dumps (JObject [(ascii ''answer'', JString (ascii ''Paris''))])"

definition confirmed_once :: "event list" where
  "confirmed_once = [StartJob env_ok ''j1'' req_ok, PaymentConfirmed env_ok ''j1'' ''bc1'']"

definition confirmed_twice :: "event list" where
  "confirmed_twice = confirmed_once @ [PaymentConfirmed env_ok ''j1'' ''bc1'']"

definition state2 :: state where
  \<comment> \<open>the state after \<open>confirmed_once\<close>\<close>
  "state2 = \<lparr>jobs = [''j1'' \<mapsto> job1\<lparr>status := ''completed'', payment_status := Some ''completed'',
                                      result := Some answer1\<rparr>],
              payment_instances = Map.empty,
              store = vector_store,
              trace = [CreatePaymentRequest ''j1'', StartStatusMonitoring ''j1'',
                       StatusWrite ''j1'' ''running'', ExecuteRagTask ''j1'',
                       CompletePayment ''j1'' ''bc1'' answer1,
                       StatusWrite ''j1'' ''completed'', StopStatusMonitoring ''j1'']\<rparr>"

definition state3 :: state where
  \<comment> \<open>the state after \<open>confirmed_twice\<close>\<close>
  "state3 = \<lparr>jobs = [''j1'' \<mapsto> job1\<lparr>status := ''failed'', payment_status := Some ''completed'',
                                      result := Some answer1,
                                      error := Some (str (KeyError ''j1''))\<rparr>],
              payment_instances = Map.empty,
              store = vector_store,
              trace = trace state2 @
                      [StatusWrite ''j1'' ''running'', ExecuteRagTask ''j1'',
                       StatusWrite ''j1'' ''failed'']\<rparr>"




section \<open>Properties of the vector store\<close>

lemma add_Inr:
  "add s emb chunk = Inr s' \<longleftrightarrow>
     length emb = index_d s \<and> s' = s\<lparr>index := index s @ [emb], chunks := chunks s @ [chunk]\<rparr>"
  by (auto simp: add_def index_add_def)

lemma adds_index_d: "index_d (adds s ops) = index_d s"
  by (induction s ops rule: adds.induct) (auto simp: add_Inr split: sum.splits)

lemma adds_length:
  "length (index s) = length (chunks s) \<Longrightarrow>
     length (index (adds s ops)) = length (chunks (adds s ops))"
  by (induction s ops rule: adds.induct) (auto simp: add_Inr split: sum.splits)

lemma adds_prefix:
  "prefix (index s) (index (adds s ops)) \<and> prefix (chunks s) (chunks (adds s ops))"
proof (induction s ops rule: adds.induct)
  case (1 s)
  show ?case by simp
next
  case (2 s emb chunk rest)
  show ?case
  proof (cases "add s emb chunk")
    case (Inl e)
    with 2 show ?thesis by simp
  next
    case (Inr s')
    then have "prefix (index s) (index s')" "prefix (chunks s) (chunks s')"
      by (simp_all add: add_Inr)
    with 2(2)[OF Inr] Inr show ?thesis
      by (auto intro: prefix_order.order_trans)
  qed
qed

lemma adds_append: "adds s (ops1 @ ops2) = adds (adds s ops1) ops2"
  by (induction s ops1 rule: adds.induct) (auto split: sum.splits)

text \<open>
  C10. Each successful \<open>add\<close> appends exactly one vector to the index and exactly one
  fragment to the fragment list; after any sequence of \<open>add\<close> calls on the initial
  store both lists have the same length, and further calls only extend the two lists
  (nothing is removed or reordered).
\<close>

theorem C10_add_keeps_correspondence:
  "(add s emb chunk = Inr s' \<longrightarrow>
       index s' = index s @ [emb] \<and> chunks s' = chunks s @ [chunk])
   \<and> length (index (adds vector_store ops)) = length (chunks (adds vector_store ops))
   \<and> prefix (index (adds vector_store ops)) (index (adds vector_store (ops @ later)))
   \<and> prefix (chunks (adds vector_store ops)) (chunks (adds vector_store (ops @ later)))"
proof -
  have "length (index (adds vector_store ops)) = length (chunks (adds vector_store ops))"
    by (rule adds_length) (simp add: vector_store_def)
  moreover have "add s emb chunk = Inr s' \<longrightarrow>
       index s' = index s @ [emb] \<and> chunks s' = chunks s @ [chunk]"
    by (simp add: add_Inr)
  ultimately show ?thesis
    using adds_prefix [of "adds vector_store ops" later] by (simp add: adds_append)
qed


theorem C10_add_keeps_correspondence_witness:
  "add vector_store origin768 (ascii ''A'') =
      Inr (vector_store\<lparr>index := [origin768], chunks := [ascii ''A'']\<rparr>)
   \<and> index (vector_store\<lparr>index := [origin768], chunks := [ascii ''A'']\<rparr>)
        = index vector_store @ [origin768]
   \<and> chunks (vector_store\<lparr>index := [origin768], chunks := [ascii ''A'']\<rparr>)
        = chunks vector_store @ [ascii ''A'']
   \<and> length (index (adds vector_store [(origin768, ascii ''A'')]))
        = length (chunks (adds vector_store [(origin768, ascii ''A'')]))"
  using C10_add_keeps_correspondence [of vector_store origin768 "ascii ''A''"
     "vector_store\<lparr>index := [origin768], chunks := [ascii ''A'']\<rparr>"
     "[(origin768, ascii ''A'')]" "[]"]
  by (simp add: add_Inr vector_store_def origin768_def)

subsection \<open>What \<open>search\<close> returns\<close>

lemma collect_Inr: "collect rs = Inr vs \<Longrightarrow> rs = map Inr vs"
proof (induction rs arbitrary: vs rule: collect.induct)
  case 1
  then show ?case by simp
next
  case (2 e rs)
  then show ?case by simp
next
  case (3 v rs)
  then show ?case by (auto split: sum.splits)
qed

lemma collect_map_Inr: "collect (map Inr vs) = Inr vs"
  by (induction vs) auto

lemma getitem_Inr: "getitem xs i = Inr v \<Longrightarrow> v \<in> set xs"
  by (auto simp: getitem_def split: if_splits)

lemma getitem_nat: "i < length xs \<Longrightarrow> getitem xs (int i) = Inr (xs ! i)"
  by (simp add: getitem_def)

lemma getitem_minus_one: "xs \<noteq> [] \<Longrightarrow> getitem xs (- 1) = Inr (last xs)"
  by (cases xs rule: rev_cases) (simp_all add: getitem_def nth_append)

lemma length_ranked: "length (ranked xs q) = length xs"
  by (simp add: ranked_def)

lemma set_ranked: "set (ranked xs q) = {0..<length xs}"
proof -
  have "set (ranked xs q) = set (map snd (zip (map (l2sqr q) xs) [0..<length xs]))"
    unfolding ranked_def by (simp only: set_map set_sort)
  also have "\<dots> = set [0..<length xs]"
    by (simp only: map_snd_zip length_map length_upt diff_zero)
  finally show ?thesis by simp
qed

lemma ranked_sorted: "sorted (map (\<lambda>i. l2sqr q (xs ! i)) (ranked xs q))"
proof -
  let ?ps = "zip (map (l2sqr q) xs) [0..<length xs]"
  have "\<forall>p \<in> set ?ps. fst p = l2sqr q (xs ! snd p)"
    by (auto simp: set_zip)
  then have "\<forall>p \<in> set (sort_key fst ?ps). fst p = l2sqr q (xs ! snd p)"
    by simp
  then have "map (\<lambda>i. l2sqr q (xs ! i)) (ranked xs q) = map fst (sort_key fst ?ps)"
    by (simp add: ranked_def)
  then show ?thesis by simp
qed

lemma index_search_length: "index_search n xs q k = Inr ixs \<Longrightarrow> length ixs = nat k"
  by (auto simp: index_search_def length_ranked split: if_splits)

text \<open>Never more than \<open>k\<close> fragments, and only stored ones; nothing from an empty index.\<close>

lemma search_length_le: "search s q k = Inr rs \<Longrightarrow> length rs \<le> nat k"
proof (cases "length (index s) = 0")
  case True
  assume "search s q k = Inr rs"
  with True show ?thesis by (simp add: search_def)
next
  case False
  assume a: "search s q k = Inr rs"
  from a False obtain ixs where ix: "index_search (index_d s) (index s) q k = Inr ixs"
    and c: "collect (map (getitem (chunks s))
              (filter (\<lambda>i. i < int (length (chunks s))) ixs)) = Inr rs"
    by (auto simp: search_def Let_def split: sum.splits)
  from collect_Inr [OF c]
  have "length rs = length (filter (\<lambda>i. i < int (length (chunks s))) ixs)"
    by (metis length_map)
  also have "\<dots> \<le> length ixs" by simp
  finally show ?thesis using index_search_length [OF ix] by simp
qed

lemma search_subset: "search s q k = Inr rs \<Longrightarrow> set rs \<subseteq> set (chunks s)"
proof (cases "length (index s) = 0")
  case True
  assume "search s q k = Inr rs"
  with True show ?thesis by (simp add: search_def)
next
  case False
  assume a: "search s q k = Inr rs"
  from a False obtain ixs where
    c: "collect (map (getitem (chunks s))
          (filter (\<lambda>i. i < int (length (chunks s))) ixs)) = Inr rs"
    by (auto simp: search_def Let_def split: sum.splits)
  show ?thesis
  proof
    fix v assume "v \<in> set rs"
    then have "Inr v \<in> set (map Inr rs)" by simp
    with collect_Inr [OF c] have
      "Inr v \<in> getitem (chunks s) ` set (filter (\<lambda>i. i < int (length (chunks s))) ixs)"
      by (metis set_map)
    then obtain i where "getitem (chunks s) i = Inr v"
      by auto
    then show "v \<in> set (chunks s)" by (rule getitem_Inr)
  qed
qed

lemma search_empty: "index s = [] \<Longrightarrow> search s q k = Inr []"
  by (simp add: search_def)

text \<open>
  On a store that is not empty \<open>search\<close> returns exactly \<open>k\<close> fragments: the label
  \<open>-1\<close> that fills the row of a short index passes the test \<open>i < len(self.chunks)\<close>
  and, as a Python index, reads the last fragment.
\<close>

lemma search_nonempty:
  assumes n: "index s \<noteq> []" "length (chunks s) = length (index s)"
    and q: "length q = index_d s" and k: "0 < k"
  shows "search s q k =
     Inr (map (\<lambda>i. chunks s ! i) (take (nat k) (ranked (index s) q))
          @ replicate (nat k - length (index s)) (last (chunks s)))"
proof -
  let ?r = "take (nat k) (ranked (index s) q)"
  let ?m = "nat k - length (index s)"
  have ne: "chunks s \<noteq> []" using n by auto
  have ix: "index_search (index_d s) (index s) q k = Inr (map int ?r @ replicate ?m (- 1))"
    using q k by (simp add: index_search_def)
  have r: "\<forall>i \<in> set ?r. i < length (chunks s)"
    using set_ranked [of "index s" q] n(2) by (auto dest: in_set_takeD)
  then have f: "filter (\<lambda>i. i < int (length (chunks s))) (map int ?r @ replicate ?m (- 1))
      = map int ?r @ replicate ?m (- 1)"
    by (auto simp: filter_id_conv)
  have g: "map (getitem (chunks s)) (map int ?r @ replicate ?m (- 1))
      = map Inr (map (\<lambda>i. chunks s ! i) ?r @ replicate ?m (last (chunks s)))"
    using r ne by (simp add: getitem_nat getitem_minus_one)
  have "search s q k =
      collect (map (getitem (chunks s))
        (filter (\<lambda>i. i < int (length (chunks s))) (map int ?r @ replicate ?m (- 1))))"
    using n(1) by (simp only: search_def ix Let_def sum.case length_0_conv if_False)
  then show ?thesis
    by (simp only: f g collect_map_Inr)
qed

subsection \<open>Two stored fragments and \<open>k = 3\<close>\<close>

lemma l2sqr_origin_origin: "l2sqr origin768 origin768 = 0"
  by (simp add: l2sqr_def origin768_def zip_replicate sum_list_replicate)

lemma origin768_snoc: "origin768 = replicate 767 0 @ [0]"
proof -
  have "replicate (Suc 767) (0::rat) = replicate 767 0 @ [0]"
    by (simp only: replicate_append_same [symmetric] replicate_Suc)
  then show ?thesis by (simp add: origin768_def)
qed

lemma l2sqr_origin_unit: "l2sqr origin768 unit768 = 1"
  by (simp add: l2sqr_def origin768_snoc unit768_def zip_replicate sum_list_replicate)

lemma length_origin768: "length origin768 = 768"
  by (simp add: origin768_def)

lemma length_unit768: "length unit768 = 768"
  by (simp add: unit768_def)

lemma store_AB:
  "adds vector_store [(origin768, a), (unit768, b)]
     = \<lparr>index_d = 768, index = [origin768, unit768], chunks = [a, b]\<rparr>"
  by (simp add: add_def index_add_def vector_store_def length_origin768 length_unit768)

lemma store_BA:
  "adds vector_store [(unit768, a), (origin768, b)]
     = \<lparr>index_d = 768, index = [unit768, origin768], chunks = [a, b]\<rparr>"
  by (simp add: add_def index_add_def vector_store_def length_origin768 length_unit768)

lemma ranked_AB: "ranked [origin768, unit768] origin768 = [0, 1]"
  by (simp add: ranked_def l2sqr_origin_origin l2sqr_origin_unit)

lemma ranked_BA: "ranked [unit768, origin768] origin768 = [1, 0]"
  by (simp add: ranked_def l2sqr_origin_origin l2sqr_origin_unit)

text \<open>
  C4. With two stored fragments \<open>A\<close> and \<open>B\<close> and \<open>k = 3\<close>, \<open>search\<close> returns three
  fragments, the last stored one twice, where the specification has each stored fragment
  exactly once.
\<close>

theorem C4_search_repeats_last_fragment:
  "search (adds vector_store [(origin768, ascii ''A''), (unit768, ascii ''B'')]) origin768 3
     = Inr [ascii ''A'', ascii ''B'', ascii ''B'']"
  unfolding store_AB
  by (simp add: search_nonempty length_origin768 ranked_AB)

text \<open>
  C5. With the fragment \<open>A\<close> stored at distance 1 from the query before the fragment
  \<open>B\<close> at distance 0, and \<open>k = 3\<close>, \<open>search\<close> returns \<open>B\<close>, \<open>A\<close>, \<open>B\<close>: the distances
  0, 1, 0 are not in non-decreasing order.
\<close>

theorem C5_search_result_not_sorted:
  "search (adds vector_store [(unit768, ascii ''A''), (origin768, ascii ''B'')]) origin768 3
     = Inr [ascii ''B'', ascii ''A'', ascii ''B'']
   \<and> map (l2sqr origin768) [origin768, unit768, origin768] = [0, 1, 0]
   \<and> \<not> sorted (map (l2sqr origin768) [origin768, unit768, origin768])"
  unfolding store_BA
  by (simp add: search_nonempty length_origin768 ranked_BA l2sqr_origin_origin l2sqr_origin_unit)

section \<open>Properties of the RAG task\<close>

subsection \<open>The replacements, one character at a time\<close>

lemma replace_Nil [simp]: "replace old new [] = []"
  by (simp add: replace_def)

lemma replace_Cons:
  "replace old new (c # cs) = (if c = old then new else [c]) @ replace old new cs"
  by (simp add: replace_def)


lemma replace_absent: "old \<notin> set xs \<Longrightarrow> replace old new xs = xs"
  by (induction xs) (auto simp: replace_Cons)




subsection \<open>Words and blanks\<close>











subsection \<open>\<open>json.dumps\<close> writes no newline\<close>

lemma hexdigit_no_newline: "hexdigit n \<noteq> 10"
  by (simp add: hexdigit_def)










section \<open>Properties of the job lifecycle\<close>

subsection \<open>\<open>handle_payment_status\<close>, path by path\<close>

lemma start_state1: "snd (start_job env_ok init ''j1'' req_ok) = state1"
  by (simp add: start_job_def start_job_try_def env_ok_def req_ok_def init_def log_def
      subscript_def pay_data_def state1_def job1_def start_job_response_def Let_def)

lemma sanitize_Paris: "sanitize (ascii ''Paris'') = ascii ''Paris''"
  by (simp add: sanitize_def ascii_def replace_def split_def isspace_def)

lemma question_not_empty: "ascii ''What is the capital of France?'' \<noteq> []"
  by (simp add: ascii_def)

lemma task_env_ok:
  "execute_rag_task env_ok vector_store (req_input_data req_ok) = Inr answer1"
  by (simp add: execute_rag_task_def env_ok_def req_ok_def search_def vector_store_def
      answer_of_def answer1_def sanitize_Paris question_not_empty)

text \<open>The four ways through \<open>handle_payment_status\<close> for a job that is in the store.\<close>

lemma handle_completed:
  assumes "jobs s job_id = Some j"
    and "execute_rag_task e (store s) (input_data j) = Inr res"
    and "payment_instances s job_id = Some p"
    and "complete_payment e payment_id res = None"
  shows "handle_payment_status e s job_id payment_id =
    (None, s\<lparr>jobs := (jobs s)(job_id \<mapsto> j\<lparr>status := ''completed'',
                  payment_status := Some ''completed'', result := Some res\<rparr>),
             payment_instances := (payment_instances s)(job_id := None),
             trace := trace s @ [StatusWrite job_id ''running'', ExecuteRagTask job_id,
                       CompletePayment job_id payment_id res,
                       StatusWrite job_id ''completed'', StopStatusMonitoring job_id]\<rparr>)"
  using assms
  by (simp add: handle_payment_status_def update_job_def log_def stop_and_forget_def Let_def
      domIff)

lemma handle_task_failed:
  assumes "jobs s job_id = Some j"
    and "execute_rag_task e (store s) (input_data j) = Inl x"
  shows "handle_payment_status e s job_id payment_id =
    (None, s\<lparr>jobs := (jobs s)(job_id \<mapsto> j\<lparr>status := ''failed'', error := Some (str x)\<rparr>),
             payment_instances := (payment_instances s)(job_id := None),
             trace := trace s @ [StatusWrite job_id ''running'', ExecuteRagTask job_id,
                       StatusWrite job_id ''failed'']
                     @ (if job_id \<in> dom (payment_instances s)
                        then [StopStatusMonitoring job_id] else [])\<rparr>)"
  using assms
  by (auto simp add: handle_payment_status_def update_job_def log_def stop_and_forget_def
      on_exception_def Let_def fun_upd_idem domIff)

lemma handle_no_instance:
  assumes "jobs s job_id = Some j"
    and "execute_rag_task e (store s) (input_data j) = Inr res"
    and "payment_instances s job_id = None"
  shows "handle_payment_status e s job_id payment_id =
    (None, s\<lparr>jobs := (jobs s)(job_id \<mapsto> j\<lparr>status := ''failed'',
                  error := Some (str (KeyError job_id))\<rparr>),
             trace := trace s @ [StatusWrite job_id ''running'', ExecuteRagTask job_id,
                       StatusWrite job_id ''failed'']\<rparr>)"
  using assms
  by (auto simp add: handle_payment_status_def update_job_def log_def stop_and_forget_def
      on_exception_def Let_def domIff)

lemma handle_complete_failed:
  assumes "jobs s job_id = Some j"
    and "execute_rag_task e (store s) (input_data j) = Inr res"
    and "payment_instances s job_id = Some p"
    and "complete_payment e payment_id res = Some x"
  shows "handle_payment_status e s job_id payment_id =
    (None, s\<lparr>jobs := (jobs s)(job_id \<mapsto> j\<lparr>status := ''failed'', error := Some (str x)\<rparr>),
             payment_instances := (payment_instances s)(job_id := None),
             trace := trace s @ [StatusWrite job_id ''running'', ExecuteRagTask job_id,
                       CompletePayment job_id payment_id res,
                       StatusWrite job_id ''failed'', StopStatusMonitoring job_id]\<rparr>)"
  using assms
  by (auto simp add: handle_payment_status_def update_job_def log_def stop_and_forget_def
      on_exception_def Let_def domIff)

lemma handle_unknown:
  "jobs s job_id = None \<Longrightarrow>
     handle_payment_status e s job_id payment_id = (Some (KeyError job_id), s)"
  by (simp add: handle_payment_status_def)

lemma run_confirmed_once: "run init confirmed_once = state2"
proof -
  have "jobs state1 ''j1'' = Some job1"
    "execute_rag_task env_ok (store state1) (input_data job1) = Inr answer1"
    "payment_instances state1 ''j1'' = Some \<lparr>payment_ids = [''bc1''], monitoring = True\<rparr>"
    "complete_payment env_ok ''bc1'' answer1 = None"
    using task_env_ok by (simp_all add: state1_def job1_def env_ok_def)
  from handle_completed [OF this]
  have "snd (handle_payment_status env_ok state1 ''j1'' ''bc1'') = state2"
    by (simp add: state1_def state2_def)
  then show ?thesis
    by (simp add: run_def confirmed_once_def start_state1)
qed

lemma run_confirmed_twice: "run init confirmed_twice = state3"
proof -
  have "jobs state2 ''j1'' = Some (job1\<lparr>status := ''completed'',
           payment_status := Some ''completed'', result := Some answer1\<rparr>)"
    "execute_rag_task env_ok (store state2)
       (input_data (job1\<lparr>status := ''completed'',
           payment_status := Some ''completed'', result := Some answer1\<rparr>)) = Inr answer1"
    "payment_instances state2 ''j1'' = None"
    using task_env_ok by (simp_all add: state2_def job1_def)
  from handle_no_instance [OF this]
  have "snd (handle_payment_status env_ok state2 ''j1'' ''bc1'') = state3"
    by (simp add: state2_def state3_def job1_def)
  then show ?thesis
    using run_confirmed_once by (simp add: run_def confirmed_twice_def)
qed

lemma task_runs_append [simp]:
  "task_runs k (xs @ ys) = task_runs k xs + task_runs k ys"
  by (simp add: task_runs_def)

lemma completions_append [simp]:
  "completions k (xs @ ys) = completions k xs + completions k ys"
  by (simp add: completions_def)

lemma status_writes_append [simp]:
  "status_writes k (xs @ ys) = status_writes k xs @ status_writes k ys"
  by (induction k xs rule: status_writes.induct) auto

text \<open>A summary of the four paths.\<close>

lemma handle_summary:
  assumes j: "jobs s job_id = Some j"
  obtains
    (completed) res p where
      "execute_rag_task e (store s) (input_data j) = Inr res"
      "payment_instances s job_id = Some p"
      "complete_payment e payment_id res = None"
      "snd (handle_payment_status e s job_id payment_id) =
         s\<lparr>jobs := (jobs s)(job_id \<mapsto> j\<lparr>status := ''completed'',
                  payment_status := Some ''completed'', result := Some res\<rparr>),
           payment_instances := (payment_instances s)(job_id := None),
           trace := trace s @ [StatusWrite job_id ''running'', ExecuteRagTask job_id,
                       CompletePayment job_id payment_id res,
                       StatusWrite job_id ''completed'', StopStatusMonitoring job_id]\<rparr>"
  | (failed) x tr where
      "snd (handle_payment_status e s job_id payment_id) =
         s\<lparr>jobs := (jobs s)(job_id \<mapsto> j\<lparr>status := ''failed'', error := Some (str x)\<rparr>),
           payment_instances := (payment_instances s)(job_id := None),
           trace := trace s @ [StatusWrite job_id ''running'', ExecuteRagTask job_id] @ tr\<rparr>"
      "task_runs job_id tr = 0"
      "status_writes job_id tr = [''failed'']"
      "completions job_id tr \<le> 1"
      "payment_instances s job_id = None \<longrightarrow> completions job_id tr = 0"
      "\<forall>k. k \<noteq> job_id \<longrightarrow> completions k tr = 0"
proof (cases "execute_rag_task e (store s) (input_data j)")
  case (Inl x)
  from handle_task_failed [OF j Inl, of payment_id] show ?thesis
    by (intro failed [where x = x and tr = "[StatusWrite job_id ''failed'']
                     @ (if job_id \<in> dom (payment_instances s)
                        then [StopStatusMonitoring job_id] else [])"])
       (simp_all add: task_runs_def completions_def)
next
  case (Inr res)
  show ?thesis
  proof (cases "payment_instances s job_id")
    case None
    from handle_no_instance [OF j Inr None, of payment_id] None show ?thesis
      by (intro failed [where x = "KeyError job_id" and tr = "[StatusWrite job_id ''failed'']"])
         (simp_all add: task_runs_def completions_def fun_upd_idem)
  next
    case (Some p)
    show ?thesis
    proof (cases "complete_payment e payment_id res")
      case None
      from handle_completed [OF j Inr Some None] show ?thesis
        by (intro completed [OF Inr Some None]) simp
    next
      case (Some x)
      from handle_complete_failed [OF j Inr \<open>payment_instances s job_id = Some p\<close> Some]
      show ?thesis
        by (intro failed [where x = x and tr = "[CompletePayment job_id payment_id res,
                       StatusWrite job_id ''failed'', StopStatusMonitoring job_id]"])
           (simp_all add: task_runs_def completions_def \<open>payment_instances s job_id = Some p\<close>)
    qed
  qed
qed


lemma handle_unknown_state:
  "jobs s job_id = None \<Longrightarrow> snd (handle_payment_status e s job_id payment_id) = s"
  by (simp add: handle_unknown)

text \<open>The states \<open>start_job\<close> can leave.\<close>

lemma snd_start_job: "snd (start_job e s job_id data) = snd (start_job_try e s job_id data)"
  by (simp add: start_job_def split: prod.splits sum.splits exn.splits)

lemma start_job_state:
  fixes e s job_id data
  defines "s' \<equiv> snd (start_job e s job_id data)"
  shows "(jobs s' = jobs s \<and> payment_instances s' = payment_instances s
          \<and> store s' = store s
          \<and> (trace s' = trace s \<or> trace s' = trace s @ [CreatePaymentRequest job_id]))
   \<or> (\<exists>bid m.
         jobs s' = (jobs s)(job_id \<mapsto>
               \<lparr>status = ''awaiting_payment'', payment_status = Some ''pending'',
                blockchain_identifier = bid, input_data = req_input_data data,
                result = None, error = None,
                identifier_from_purchaser = req_identifier_from_purchaser data\<rparr>)
       \<and> payment_instances s' = (payment_instances s)(job_id \<mapsto>
               \<lparr>payment_ids = [bid], monitoring = m\<rparr>)
       \<and> store s' = store s
       \<and> trace s' = trace s @ [CreatePaymentRequest job_id, StartStatusMonitoring job_id])"
proof (cases "''question'' \<in> dom (req_input_data data)")
  case False
  then show ?thesis
    by (simp add: s'_def snd_start_job start_job_try_def)
next
  case q: True
  show ?thesis
  proof (cases "create_payment_request e")
    case (Inl x)
    with q show ?thesis
      by (simp add: s'_def snd_start_job start_job_try_def log_def)
  next
    case pr: (Inr payment_request)
    show ?thesis
    proof (cases "subscript payment_request ''data''")
      case (Inl x)
      with q pr show ?thesis
        by (simp add: s'_def snd_start_job start_job_try_def log_def)
    next
      case pd: (Inr pdata)
      show ?thesis
      proof (cases "subscript pdata ''blockchainIdentifier''")
        case (Inl x)
        with q pr pd show ?thesis
          by (simp add: s'_def snd_start_job start_job_try_def log_def)
      next
        case (Inr bid)
        with q pr pd show ?thesis
          by (cases "start_status_monitoring e")
             (auto simp add: s'_def snd_start_job start_job_try_def log_def Let_def)
      qed
    qed
  qed
qed

lemma get_status_state:
  fixes e s job_id
  defines "s' \<equiv> snd (get_status e s job_id)"
  shows "payment_instances s' = payment_instances s \<and> store s' = store s
     \<and> (jobs s' = jobs s \<and> trace s' = trace s
        \<or> (\<exists>j. jobs s job_id = Some j
              \<and> jobs s' = (jobs s)(job_id \<mapsto> j\<lparr>payment_status := refreshed e\<rparr>)
              \<and> trace s' = trace s @ [CheckPaymentStatus job_id]))"
  by (cases "jobs s job_id") (simp_all add: s'_def get_status_def log_def Let_def)


subsection \<open>The invariant of the job store\<close>









subsection \<open>How often \<open>complete_payment\<close> is called\<close>






subsection \<open>Confirmation events\<close>




text \<open>
  C2, as stated, fails: the job \<open>j1\<close>, completed by a first confirmation, is set to
  \<open>running\<close> and then to \<open>failed\<close> by a second one.
\<close>

theorem C2_terminal_status_changes:
  "map_option status (jobs (run init confirmed_once) ''j1'') = Some ''completed''
   \<and> map_option status (jobs (run init confirmed_twice) ''j1'') = Some ''failed''
   \<and> status_writes ''j1'' (trace (run init confirmed_twice))
       = [''running'', ''completed'', ''running'', ''failed'']"
  by (simp add: run_confirmed_once run_confirmed_twice state2_def state3_def job1_def)

text \<open>
  C2, amended. \<open>start_job\<close> stores the new job with status \<open>awaiting_payment\<close> and
  changes no other job; \<open>get_status\<close> changes no job's status; a confirmation event
  handled for a stored job writes \<open>running\<close> and then \<open>completed\<close> or \<open>failed\<close> to the
  status of that job and of no other, whatever the status was before: no transition is
  rejected.
\<close>

theorem C2_status_transitions:
  "(jobs s job_id = Some j \<longrightarrow>
      (status_writes job_id (trace (snd (handle_payment_status e s job_id payment_id)))
         = status_writes job_id (trace s) @ [''running'', ''completed'']
       \<and> map_option status (jobs (snd (handle_payment_status e s job_id payment_id)) job_id)
         = Some ''completed'')
    \<or> (status_writes job_id (trace (snd (handle_payment_status e s job_id payment_id)))
         = status_writes job_id (trace s) @ [''running'', ''failed'']
       \<and> map_option status (jobs (snd (handle_payment_status e s job_id payment_id)) job_id)
         = Some ''failed''))
   \<and> (k \<noteq> job_id \<longrightarrow> jobs (snd (handle_payment_status e s job_id payment_id)) k = jobs s k)
   \<and> map_option status (jobs (snd (get_status e s job_id)) k) = map_option status (jobs s k)
   \<and> (jobs (snd (start_job e s job_id data)) k = jobs s k
       \<or> k = job_id
         \<and> map_option status (jobs (snd (start_job e s job_id data)) k) = Some ''awaiting_payment'')"
proof -
  have handled: "jobs s job_id = Some j \<longrightarrow>
      (status_writes job_id (trace (snd (handle_payment_status e s job_id payment_id)))
         = status_writes job_id (trace s) @ [''running'', ''completed'']
       \<and> map_option status (jobs (snd (handle_payment_status e s job_id payment_id)) job_id)
         = Some ''completed'')
    \<or> (status_writes job_id (trace (snd (handle_payment_status e s job_id payment_id)))
         = status_writes job_id (trace s) @ [''running'', ''failed'']
       \<and> map_option status (jobs (snd (handle_payment_status e s job_id payment_id)) job_id)
         = Some ''failed'')"
  proof
    assume "jobs s job_id = Some j"
    then show "(status_writes job_id (trace (snd (handle_payment_status e s job_id payment_id)))
         = status_writes job_id (trace s) @ [''running'', ''completed'']
       \<and> map_option status (jobs (snd (handle_payment_status e s job_id payment_id)) job_id)
         = Some ''completed'')
    \<or> (status_writes job_id (trace (snd (handle_payment_status e s job_id payment_id)))
         = status_writes job_id (trace s) @ [''running'', ''failed'']
       \<and> map_option status (jobs (snd (handle_payment_status e s job_id payment_id)) job_id)
         = Some ''failed'')"
      by (cases rule: handle_summary [where e = e and payment_id = payment_id]) simp_all
  qed
  have others: "k \<noteq> job_id \<longrightarrow>
      jobs (snd (handle_payment_status e s job_id payment_id)) k = jobs s k"
  proof (cases "jobs s job_id")
    case None
    then show ?thesis by (simp add: handle_unknown)
  next
    case (Some j')
    then show ?thesis
      by (cases rule: handle_summary [where e = e and payment_id = payment_id]) simp_all
  qed
  have queried: "map_option status (jobs (snd (get_status e s job_id)) k)
      = map_option status (jobs s k)"
    using get_status_state [of e s job_id]
    by (elim disjE exE conjE) auto
  have started: "jobs (snd (start_job e s job_id data)) k = jobs s k
       \<or> k = job_id
         \<and> map_option status (jobs (snd (start_job e s job_id data)) k) = Some ''awaiting_payment''"
    using start_job_state [of e s job_id data]
    by (elim disjE exE conjE) auto
  from handled others queried started show ?thesis by blast
qed

theorem C2_status_transitions_witness:
  "jobs state1 ''j1'' = Some job1
   \<and> status_writes ''j1'' (trace (snd (handle_payment_status env_ok state1 ''j1'' ''bc1'')))
       = [''running'', ''completed'']
   \<and> map_option status (jobs (snd (handle_payment_status env_ok state1 ''j1'' ''bc1'')) ''j1'')
       = Some ''completed''
   \<and> map_option status (jobs (snd (get_status env_ok state1 ''j1'')) ''j1'')
       = Some ''awaiting_payment''
   \<and> map_option status (jobs (snd (start_job env_ok init ''j1'' req_ok)) ''j1'')
       = Some ''awaiting_payment''"
proof -
  have s2: "snd (handle_payment_status env_ok state1 ''j1'' ''bc1'') = state2"
    using run_confirmed_once by (simp add: run_def confirmed_once_def start_state1)
  show ?thesis
    using C2_status_transitions [of state1 "''j1''" job1 env_ok "''bc1''" "''j1''" req_ok]
    unfolding s2 start_state1
    by (simp add: state1_def state2_def job1_def get_status_def log_def env_ok_def refreshed_def)
qed




section \<open>Properties of the request handlers\<close>

text \<open>
  C6. A \<open>start_job\<close> request whose \<open>input_data\<close> has no key \<open>question\<close> fails with
  status code 400, and the state is the one before the call: no payment request was
  made (nothing is added to the record of calls), no job and no payment instance is
  stored.
\<close>

theorem C6_missing_question_rejected:
  "''question'' \<notin> dom (req_input_data data) \<Longrightarrow>
     start_job e s job_id data =
       (Inl (HTTPException 400 ''Input_data or identifier_from_purchaser is missing, invalid, or does not adhere to the schema.''), s)"
  by (simp add: start_job_def start_job_try_def)

theorem C6_missing_question_rejected_witness:
  "''question'' \<notin> dom (req_input_data req_no_question) \<and>
   start_job env_ok init ''j1'' req_no_question =
       (Inl (HTTPException 400 ''Input_data or identifier_from_purchaser is missing, invalid, or does not adhere to the schema.''), init)"
  using C6_missing_question_rejected [of req_no_question env_ok init "''j1''"]
  by (simp add: req_no_question_def)

lemma refreshed_cases:
  "(\<forall>m. check_payment_status e = Inl (ValueError m) \<longrightarrow> refreshed e = Some ''unknown'')
   \<and> (\<forall>x. check_payment_status e = Inl x \<longrightarrow> (\<forall>m. x \<noteq> ValueError m)
          \<longrightarrow> refreshed e = Some ''error'')
   \<and> (\<forall>st. check_payment_status e = Inr st \<longrightarrow>
          refreshed e = (case st ''data'' of None \<Rightarrow> None | Some d \<Rightarrow> d ''status''))"
  by (auto simp: refreshed_def split: sum.splits exn.splits)

text \<open>
  C7. For a job id in the store \<open>get_status\<close> returns a response with the job id, the
  job's status and result and a payment status; when the job has a payment instance
  and the status check raises, the payment status returned is \<open>unknown\<close> (for a
  \<open>ValueError\<close>) or \<open>error\<close> (for any other exception), and the call still returns.
\<close>

theorem C7_status_always_answers:
  assumes "jobs s job_id = Some j"
  shows "\<exists>r s'. get_status e s job_id = (Inr r, s')
     \<and> s_job_id r = job_id \<and> s_status r = status j \<and> s_result r = result j
     \<and> (job_id \<notin> dom (payment_instances s) \<longrightarrow> s_payment_status r = payment_status j)
     \<and> (job_id \<in> dom (payment_instances s) \<longrightarrow>
          (\<forall>m. check_payment_status e = Inl (ValueError m)
               \<longrightarrow> s_payment_status r = Some ''unknown'')
        \<and> (\<forall>x. check_payment_status e = Inl x \<longrightarrow> (\<forall>m. x \<noteq> ValueError m)
               \<longrightarrow> s_payment_status r = Some ''error''))"
  using assms refreshed_cases [of e]
  by (auto simp: get_status_def Let_def)

theorem C7_status_always_answers_witness:
  "jobs state1 ''j1'' = Some job1
   \<and> ''j1'' \<in> dom (payment_instances state1)
   \<and> check_payment_status env_down = Inl (OtherException ''timeout'')
   \<and> (\<exists>r s'. get_status env_down state1 ''j1'' = (Inr r, s')
        \<and> s_job_id r = ''j1'' \<and> s_status r = ''awaiting_payment'' \<and> s_result r = None
        \<and> s_payment_status r = Some ''error'')"
  using C7_status_always_answers [of state1 "''j1''" job1 env_down]
  by (simp add: state1_def job1_def env_down_def)

text \<open>
  C9. For a job that has a payment instance, \<open>get_status\<close> stores a new
  \<open>payment_status\<close> in the job record (the status the provider reports, or \<open>unknown\<close>
  or \<open>error\<close> when the check raises) and changes no other field of the record, no
  other job, no payment instance and not the vector store.
\<close>

theorem C9_status_refreshes_payment_status_only:
  assumes "jobs s job_id = Some j" and "job_id \<in> dom (payment_instances s)"
  shows "jobs (snd (get_status e s job_id)) = (jobs s)(job_id \<mapsto> j\<lparr>payment_status := refreshed e\<rparr>)
     \<and> payment_instances (snd (get_status e s job_id)) = payment_instances s
     \<and> store (snd (get_status e s job_id)) = store s
     \<and> status (j\<lparr>payment_status := refreshed e\<rparr>) = status j
     \<and> input_data (j\<lparr>payment_status := refreshed e\<rparr>) = input_data j
     \<and> result (j\<lparr>payment_status := refreshed e\<rparr>) = result j
     \<and> error (j\<lparr>payment_status := refreshed e\<rparr>) = error j
     \<and> blockchain_identifier (j\<lparr>payment_status := refreshed e\<rparr>) = blockchain_identifier j
     \<and> identifier_from_purchaser (j\<lparr>payment_status := refreshed e\<rparr>) = identifier_from_purchaser j
     \<and> (\<forall>m. check_payment_status e = Inl (ValueError m) \<longrightarrow> refreshed e = Some ''unknown'')
     \<and> (\<forall>x. check_payment_status e = Inl x \<longrightarrow> (\<forall>m. x \<noteq> ValueError m)
            \<longrightarrow> refreshed e = Some ''error'')
     \<and> (\<forall>st. check_payment_status e = Inr st \<longrightarrow>
            refreshed e = (case st ''data'' of None \<Rightarrow> None | Some d \<Rightarrow> d ''status''))"
  using assms refreshed_cases [of e]
  by (simp add: get_status_def Let_def log_def)

theorem C9_status_refreshes_payment_status_only_witness:
  "jobs state1 ''j1'' = Some job1 \<and> ''j1'' \<in> dom (payment_instances state1)
   \<and> jobs (snd (get_status env_ok state1 ''j1''))
        = [''j1'' \<mapsto> job1\<lparr>payment_status := Some ''FundsLocked''\<rparr>]
   \<and> payment_instances (snd (get_status env_ok state1 ''j1'')) = payment_instances state1
   \<and> store (snd (get_status env_ok state1 ''j1'')) = store state1"
  using C9_status_refreshes_payment_status_only [of state1 "''j1''" job1 env_ok]
  by (simp add: state1_def env_ok_def)

section \<open>The result of the RAG task\<close>





end
